theory Spec2Isabelle
  imports Main "HOL-Library.Sublist"
begin

section \<open>Python values, option dictionaries, exceptions and effects\<close>

text \<open>
  The two source files are Python 2: \<open>command/setup_rpl.py\<close> (the functions
  \<open>setup_replication\<close> and \<open>start_ms_replication\<close>) and the script
  \<open>scripts/mysqlslavetrx.py\<close>. Both drive collaborators that live in other modules of
  the package (\<open>Replication\<close>, \<open>ReplicationMultiSource\<close>, \<open>connect_servers\<close>,
  \<open>check_gtid_set_format\<close>, \<open>skip_subordinates_trx\<close>, ...). A collaborator is a
  field of a record of functions; a call either returns a value or raises, so its result
  is a sum with the exception on the left.
\<close>

datatype pyval = PNone | PBool bool | PInt int | PStr string

type_synonym options = "string \<rightharpoonup> pyval"

text \<open>\<open>d.get(k, dflt)\<close>\<close>

definition dict_get :: "options \<Rightarrow> string \<Rightarrow> pyval \<Rightarrow> pyval" where
  "dict_get d k dflt = (case d k of None \<Rightarrow> dflt | Some v \<Rightarrow> v)"

text \<open>
  The Python 2 comparison \<open>v > 0\<close>: \<open>None\<close> is below every number, a bool is the
  integer 0 or 1, and a string is above every number.
\<close>

fun py_gt_zero :: "pyval \<Rightarrow> bool" where
  "py_gt_zero PNone = False"
| "py_gt_zero (PBool b) = b"
| "py_gt_zero (PInt n) = (0 < n)"
| "py_gt_zero (PStr s) = True"

datatype error =
    UtilError string
  | UtilRplError string
  | IndexError
  | KeyboardInterrupt
  | ParserError string
  | SystemExit nat
  | OtherError string

datatype check =
  ServerIds | ServerUuids | InnodbCompatibility | StorageEngines | MainBinlog

text \<open>
  What a run does, in order: the lines it prints and the collaborator calls it makes.
  The event of a pre-flight check records what the check returned. \<open>Start None\<close> is
  the call \<open>rplms.start()\<close>, \<open>Start (Some b)\<close> the call
  \<open>rplms.start(detach_process=b)\<close>; \<open>SkipSubordinatesTrx g v d\<close> is the call of
  \<open>skip_subordinates_trx\<close> with the GTID set \<open>g\<close> and the options
  \<open>{'verbosity': v, 'dry_run': d}\<close>.
\<close>

datatype event =
    is_Print: Print string
  | Stderr string
  | ConnectServers string string
  | is_Check: Check check "error + string list"
  | is_Setup: Setup string nat
  | Test string nat
  | Start "bool option"
  | Stop
  | Restart
  | StopReplication
  | CheckPythonVersion
  | CheckPasswordSecurity
  | CheckGtidSetFormat string
  | ParseTopologyConnections
  | SkipSubordinatesTrx string int bool

type_synonym 'a run = "event list \<times> (error + 'a)"

definition ret :: "'a \<Rightarrow> 'a run" where
  "ret x = ([], Inr x)"

definition raise :: "error \<Rightarrow> 'a run" where
  "raise e = ([], Inl e)"

definition print :: "string \<Rightarrow> unit run" where
  "print s = ([Print s], Inr ())"

text \<open>A collaborator call: its event, then its result (a raise propagates).\<close>

definition call :: "event \<Rightarrow> error + 'a \<Rightarrow> 'a run" where
  "call ev r = ([ev], r)"

text \<open>Sequencing of statements: an exception in the first ends the run.\<close>

definition then_do :: "'a run \<Rightarrow> ('a \<Rightarrow> 'b run) \<Rightarrow> 'b run" where
  "then_do m f =
     (case snd m of
        Inl e \<Rightarrow> (fst m, Inl e)
      | Inr x \<Rightarrow> (fst m @ fst (f x), snd (f x)))"

definition when_do :: "bool \<Rightarrow> unit run \<Rightarrow> unit run" where
  "when_do b m = (if b then m else ret ())"

text \<open>\<open>for error in errors: print error\<close>\<close>

fun print_all :: "string list \<Rightarrow> unit run" where
  "print_all [] = ret ()"
| "print_all (e # es) = then_do (print e) (\<lambda>_. print_all es)"

text \<open>\<open>xs[i]\<close> for a non-negative literal index; out of range raises.\<close>

definition py_index :: "'a list \<Rightarrow> nat \<Rightarrow> 'a run" where
  "py_index xs i = (if i < length xs then ret (xs ! i) else raise IndexError)"

section \<open>\<open>setup_replication\<close>\<close>

text \<open>
  The collaborators of \<open>setup_replication\<close>: \<open>connect_servers\<close>, the two getters of a
  server, the constructor of the \<open>Replication\<close> object and the methods the function
  calls on it. \<open>rpl_setup\<close> and \<open>rpl_test\<close> are the methods \<open>Replication.setup\<close> and
  \<open>Replication.test\<close>; the getters give the text that \<open>%s\<close> prints.
\<close>

record ('srv, 'rpl) world =
  connect_servers :: "string \<Rightarrow> string \<Rightarrow> options \<Rightarrow> error + 'srv list"
  get_server_id :: "'srv \<Rightarrow> string"
  get_server_uuid :: "'srv \<Rightarrow> string"
  Replication :: "'srv \<Rightarrow> 'srv \<Rightarrow> options \<Rightarrow> 'rpl"
  check_server_ids :: "'rpl \<Rightarrow> error + string list"
  check_server_uuids :: "'rpl \<Rightarrow> error + string list"
  check_innodb_compatibility :: "'rpl \<Rightarrow> options \<Rightarrow> error + string list"
  check_storage_engines :: "'rpl \<Rightarrow> options \<Rightarrow> error + string list"
  check_main_binlog :: "'rpl \<Rightarrow> error + string list"
  rpl_setup :: "'rpl \<Rightarrow> string \<Rightarrow> nat \<Rightarrow> error + bool"
  rpl_test :: "'rpl \<Rightarrow> string \<Rightarrow> nat \<Rightarrow> error + unit"

definition run_check :: "check \<Rightarrow> error + string list \<Rightarrow> string list run" where
  "run_check c r = call (Check c r) r"

text \<open>The dictionary \<open>conn_options\<close> of \<open>setup_replication\<close>.\<close>

definition conn_options :: options where
  "conn_options = [''src_name'' \<mapsto> PStr ''main'',
                   ''dest_name'' \<mapsto> PStr ''subordinate'',
                   ''version'' \<mapsto> PStr ''5.0.0'',
                   ''unique'' \<mapsto> PBool True]"

text \<open>
  \<open>rpl_options = options.copy(); rpl_options['verbosity'] = verbosity > 0\<close>, where
  \<open>verbosity = options.get("verbosity", 0)\<close>.
\<close>

definition rpl_options_of :: "options \<Rightarrow> options" where
  "rpl_options_of options =
     options(''verbosity'' \<mapsto> PBool (py_gt_zero (dict_get options ''verbosity'' (PInt 0))))"

definition setup_replication ::
  "('srv, 'rpl) world \<Rightarrow> string \<Rightarrow> string \<Rightarrow> string \<Rightarrow> options \<Rightarrow> string option \<Rightarrow> unit run"
where
  "setup_replication w main_vals subordinate_vals rpl_user options test_db =
    (let verbosity = dict_get options ''verbosity'' (PInt 0) in
     then_do (call (ConnectServers main_vals subordinate_vals)
                (connect_servers w main_vals subordinate_vals conn_options)) (\<lambda>servers.
     then_do (py_index servers 0) (\<lambda>main.
     then_do (py_index servers 1) (\<lambda>subordinate.
     let rpl_options = rpl_options_of options;
         rpl = Replication w main subordinate rpl_options
     in
     then_do (run_check ServerIds (check_server_ids w rpl)) (\<lambda>errors.
     then_do (print_all errors) (\<lambda>_.
     then_do (when_do (py_gt_zero verbosity)
                (then_do (print (''# main id = '' @ get_server_id w main)) (\<lambda>_.
                 print (''#  subordinate id = '' @ get_server_id w subordinate)))) (\<lambda>_.
     then_do (run_check ServerUuids (check_server_uuids w rpl)) (\<lambda>errors.
     then_do (print_all errors) (\<lambda>_.
     then_do (when_do (py_gt_zero verbosity)
                (then_do (print (''# main uuid = '' @ get_server_uuid w main)) (\<lambda>_.
                 print (''#  subordinate uuid = '' @ get_server_uuid w subordinate)))) (\<lambda>_.
     then_do (when_do (py_gt_zero verbosity)
                (print ''# Checking InnoDB statistics for type and version conflicts.'')) (\<lambda>_.
     then_do (run_check InnodbCompatibility (check_innodb_compatibility w rpl options)) (\<lambda>errors.
     then_do (print_all errors) (\<lambda>_.
     then_do (when_do (py_gt_zero verbosity)
                (print ''# Checking storage engines...'')) (\<lambda>_.
     then_do (run_check StorageEngines (check_storage_engines w rpl options)) (\<lambda>errors.
     then_do (print_all errors) (\<lambda>_.
     then_do (print ''# Checking for binary logging on main...'') (\<lambda>_.
     then_do (run_check MainBinlog (check_main_binlog w rpl)) (\<lambda>errors.
     then_do (case errors of
                [] \<Rightarrow> ret ()
              | e # _ \<Rightarrow> raise (UtilError e)) (\<lambda>_.
     then_do (print ''# Setting up replication...'') (\<lambda>_.
     then_do (call (Setup rpl_user 10) (rpl_setup w rpl rpl_user 10)) (\<lambda>ok.
     then_do (if \<not> ok then raise (UtilError ''Cannot setup replication.'') else ret ()) (\<lambda>_.
     then_do (case test_db of
                None \<Rightarrow> ret ()
              | Some db \<Rightarrow> if db = [] then ret ()
                           else call (Test db 10) (rpl_test w rpl db 10)) (\<lambda>_.
     print ''# ...done.'')))))))))))))))))))))))"

section \<open>\<open>start_ms_replication\<close>\<close>

text \<open>
  The collaborator is the class \<open>ReplicationMultiSource\<close>: its constructor and the
  methods \<open>start\<close>, \<open>stop\<close>, \<open>restart\<close> and \<open>stop_replication\<close>. The argument of
  \<open>start\<close> is \<open>None\<close> when the call passes no \<open>detach_process\<close>.
\<close>

record ('conn, 'ms) ms_world =
  ReplicationMultiSource :: "'conn \<Rightarrow> 'conn list \<Rightarrow> options \<Rightarrow> 'ms"
  start :: "'ms \<Rightarrow> bool option \<Rightarrow> error + unit"
  stop :: "'ms \<Rightarrow> error + unit"
  restart :: "'ms \<Rightarrow> error + unit"
  stop_replication :: "'ms \<Rightarrow> error + unit"

text \<open>\<open>try: m except KeyboardInterrupt: h\<close>; every other exception propagates.\<close>

definition except_KeyboardInterrupt :: "'a run \<Rightarrow> 'a run \<Rightarrow> 'a run" where
  "except_KeyboardInterrupt m h =
     (case snd m of
        Inl KeyboardInterrupt \<Rightarrow> (fst m @ fst h, snd h)
      | _ \<Rightarrow> m)"

definition start_ms_replication ::
  "('conn, 'ms) ms_world \<Rightarrow> 'conn \<Rightarrow> 'conn list \<Rightarrow> options \<Rightarrow> unit run"
where
  "start_ms_replication w subordinate_vals mains_vals options =
    (let rplms = ReplicationMultiSource w subordinate_vals mains_vals options;
         daemon = dict_get options ''daemon'' PNone
     in
     if daemon = PStr ''start'' then call (Start None) (start w rplms None)
     else if daemon = PStr ''stop'' then call Stop (stop w rplms)
     else if daemon = PStr ''restart'' then call Restart (restart w rplms)
     else except_KeyboardInterrupt
            (call (Start (Some False)) (start w rplms (Some False)))
            (call StopReplication (stop_replication w rplms)))"

text \<open>
  Modelled from the spec: the default of the parameter \<open>detach_process\<close> of
  \<open>ReplicationMultiSource.start\<close>, which is not among the source files. Section 4.4
  gives \<open>start\<close> a foreground mode and a detached mode; the foreground call of the source
  passes \<open>detach_process=False\<close>, so the call without the argument is the detached one.
\<close>

fun detached :: "bool option \<Rightarrow> bool" where
  "detached None = True"
| "detached (Some b) = b"

section \<open>The script \<open>mysqlslavetrx.py\<close>\<close>

text \<open>
  The values the option parser hands to the script: \<open>--gtid-set\<close>, \<open>--subordinates\<close>,
  \<open>--dryrun\<close>, the verbosity count, and the attribute \<open>main\<close> that the script sets.
\<close>

record opt =
  opt_gtid_set :: "string option"
  opt_subordinates :: "string option"
  opt_dry_run :: bool
  opt_verbosity :: "int option"
  opt_main :: "string option"

text \<open>
  The collaborators of the script. \<open>PARSE_ERR_OPTS_REQ\<close> is the message template of
  \<open>common.messages\<close>, applied to the option name; \<open>parse_topology_connections\<close> gives
  the second component of the tuple it returns.
\<close>

record 'sv script_world =
  check_python_version :: "error + unit"
  check_connector_python :: bool
  check_password_security :: "opt \<Rightarrow> error + unit"
  PARSE_ERR_OPTS_REQ :: "string \<Rightarrow> string"
  check_gtid_set_format :: "string \<Rightarrow> error + unit"
  parse_topology_connections :: "opt \<Rightarrow> error + 'sv"
  skip_subordinates_trx :: "string \<Rightarrow> 'sv \<Rightarrow> int \<Rightarrow> bool \<Rightarrow> error + unit"

text \<open>
  \<open>if not v: parser.error(PARSE_ERR_OPTS_REQ.format(opt=name))\<close>: \<open>None\<close> and the
  empty string are both false. \<open>parser.error\<close> of optparse writes the message and
  leaves the program with status 2.
\<close>

definition required :: "'sv script_world \<Rightarrow> string \<Rightarrow> string option \<Rightarrow> string run" where
  "required w name v =
     (case v of
        None \<Rightarrow> raise (ParserError (PARSE_ERR_OPTS_REQ w name))
      | Some s \<Rightarrow> if s = [] then raise (ParserError (PARSE_ERR_OPTS_REQ w name)) else ret s)"

text \<open>
  The two handlers of the script write \<open>ERROR: <errmsg>\<close> and a newline to standard
  error and call \<open>sys.exit(1)\<close>. The first catches \<open>UtilRplError\<close>; the second catches
  \<open>UtilError\<close>, of which \<open>UtilRplError\<close> is a subclass in the package's exception module.
\<close>

definition report_and_exit :: "string \<Rightarrow> 'a run" where
  "report_and_exit errmsg =
     then_do (call (Stderr (''ERROR: '' @ errmsg @ [CHR 0x0A])) (Inr ())) (\<lambda>_.
     raise (SystemExit 1))"

definition except_UtilRplError :: "'a run \<Rightarrow> 'a run" where
  "except_UtilRplError m =
     (case snd m of
        Inl (UtilRplError errmsg) \<Rightarrow> (fst m @ fst (report_and_exit errmsg :: 'a run),
                                    snd (report_and_exit errmsg :: 'a run))
      | _ \<Rightarrow> m)"

definition except_UtilError :: "'a run \<Rightarrow> 'a run" where
  "except_UtilError m =
     (case snd m of
        Inl (UtilError errmsg) \<Rightarrow> (fst m @ fst (report_and_exit errmsg :: 'a run),
                                 snd (report_and_exit errmsg :: 'a run))
      | Inl (UtilRplError errmsg) \<Rightarrow> (fst m @ fst (report_and_exit errmsg :: 'a run),
                                    snd (report_and_exit errmsg :: 'a run))
      | _ \<Rightarrow> m)"

definition mysqlslavetrx :: "'sv script_world \<Rightarrow> opt \<Rightarrow> unit run" where
  "mysqlslavetrx w opt =
     then_do (call CheckPythonVersion (check_python_version w)) (\<lambda>_.
     then_do (if \<not> check_connector_python w then raise (SystemExit 1) else ret ()) (\<lambda>_.
     then_do (call CheckPasswordSecurity (check_password_security w opt)) (\<lambda>_.
     then_do (required w ''--gtid-set'' (opt_gtid_set opt)) (\<lambda>gtid_set.
     then_do (required w ''--subordinates'' (opt_subordinates opt)) (\<lambda>_.
     then_do (call (CheckGtidSetFormat gtid_set) (check_gtid_set_format w gtid_set)) (\<lambda>_.
     then_do (except_UtilRplError
                (call ParseTopologyConnections
                   (parse_topology_connections w (opt\<lparr>opt_main := None\<rparr>)))) (\<lambda>subordinates_val.
     let verbosity = (case opt_verbosity opt of None \<Rightarrow> 0 | Some v \<Rightarrow> v);
         dry_run = opt_dry_run opt
     in
     except_UtilError
       (call (SkipSubordinatesTrx gtid_set verbosity dry_run)
          (skip_subordinates_trx w gtid_set subordinates_val verbosity dry_run)))))))))"

section \<open>Reading a run\<close>

text \<open>The pre-flight checks a run executed, in the order of their calls.\<close>

fun executed_checks :: "event list \<Rightarrow> check list" where
  "executed_checks [] = []"
| "executed_checks (Check c r # t) = c # executed_checks t"
| "executed_checks (ev # t) = executed_checks t"


text \<open>
  A run aborts in the pre-flight phase when it ends with an exception and has not
  called \<open>Replication.setup\<close>, the step that configures the subordinate.
\<close>

definition preflight_abort :: "'a run \<Rightarrow> bool" where
  "preflight_abort r = (isl (snd r) \<and> list_all (\<lambda>ev. \<not> is_Setup ev) (fst r))"


text \<open>The events of the script that reach a subordinate.\<close>

fun contacts_subordinate :: "event \<Rightarrow> bool" where
  "contacts_subordinate ParseTopologyConnections = True"
| "contacts_subordinate (SkipSubordinatesTrx g v d) = True"
| "contacts_subordinate ev = False"

text \<open>
  The events of \<open>setup_replication\<close> from the connection to the announcement of the
  binary-logging check (lines 49 to 93), when the first four checks returned the given
  findings.
\<close>

definition preflight_trace ::
  "('srv, 'rpl) world \<Rightarrow> string \<Rightarrow> string \<Rightarrow> 'srv \<Rightarrow> 'srv \<Rightarrow> options
     \<Rightarrow> string list \<Rightarrow> string list \<Rightarrow> string list \<Rightarrow> string list \<Rightarrow> event list" where
  "preflight_trace w mv sv m s options ids uuids innodb engines =
     [ConnectServers mv sv, Check ServerIds (Inr ids)] @ map Print ids @
     (if py_gt_zero (dict_get options ''verbosity'' (PInt 0))
      then [Print (''# main id = '' @ get_server_id w m),
            Print (''#  subordinate id = '' @ get_server_id w s)] else []) @
     [Check ServerUuids (Inr uuids)] @ map Print uuids @
     (if py_gt_zero (dict_get options ''verbosity'' (PInt 0))
      then [Print (''# main uuid = '' @ get_server_uuid w m),
            Print (''#  subordinate uuid = '' @ get_server_uuid w s),
            Print ''# Checking InnoDB statistics for type and version conflicts.'']
      else []) @
     [Check InnodbCompatibility (Inr innodb)] @ map Print innodb @
     (if py_gt_zero (dict_get options ''verbosity'' (PInt 0))
      then [Print ''# Checking storage engines...''] else []) @
     [Check StorageEngines (Inr engines)] @ map Print engines @
     [Print ''# Checking for binary logging on main...'']"

text \<open>
  The statements of \<open>setup_replication\<close> after the binary-logging check (lines 98 to
  107), as a run of their own.
\<close>

definition configure ::
  "('srv, 'rpl) world \<Rightarrow> 'rpl \<Rightarrow> string \<Rightarrow> string option \<Rightarrow> unit run" where
  "configure w rpl rpl_user test_db =
     then_do (print ''# Setting up replication...'') (\<lambda>_.
     then_do (call (Setup rpl_user 10) (rpl_setup w rpl rpl_user 10)) (\<lambda>ok.
     then_do (if \<not> ok then raise (UtilError ''Cannot setup replication.'') else ret ()) (\<lambda>_.
     then_do (case test_db of
                None \<Rightarrow> ret ()
              | Some db \<Rightarrow> if db = [] then ret ()
                           else call (Test db 10) (rpl_test w rpl db 10)) (\<lambda>_.
     print ''# ...done.''))))"




text \<open>The five pre-flight checks in the order of section 4.2.\<close>

definition preflight_checks :: "check list" where
  "preflight_checks = [ServerIds, ServerUuids, InnodbCompatibility, StorageEngines, MainBinlog]"

section \<open>The validator's server-id check\<close>

text \<open>
  Modelled from the spec: the resolved server of section 3 (\<open>ServerEndpoint\<close>), with the
  fields the server-id check reads. The class behind the server handles is not among the
  source files.
\<close>

record server =
  label :: string
  server_id :: nat
  server_uuid :: string

text \<open>
  Modelled from the spec: \<open>Replication.check_server_ids\<close>, which is not among the source
  files. Section 4.2: the check fails if main and subordinate share a \<open>server_id\<close>, and
  returns zero or more findings; section 8: for two servers with identical \<open>server_id\<close>
  it yields exactly one finding naming both servers. The wording of the finding is not in
  the spec; this one holds both labels.
\<close>

definition spec_check_server_ids :: "server \<Rightarrow> server \<Rightarrow> string list" where
  "spec_check_server_ids m s =
     (if server_id m = server_id s
      then [''server_id collision: '' @ label m @ '' and '' @ label s]
      else [])"

text \<open>Python's \<open>str\<close> of a non-negative integer.\<close>

definition digit :: "nat \<Rightarrow> char" where
  "digit d = char_of (48 + d)"

function show_nat :: "nat \<Rightarrow> string" where
  "show_nat n = (if n < 10 then [digit n] else show_nat (n div 10) @ [digit (n mod 10)])"
  by pat_completeness auto
termination
  by (relation "measure id") auto

section \<open>The bounded start attempts of \<open>Replication.setup\<close>\<close>

text \<open>
  Modelled from the spec: the loop of \<open>Replication.setup\<close>, which is not among the source
  files. Section 4.3, step 3: the subordinate is configured with a bounded number of
  start attempts, and the step fails if replication does not reach a running state
  within the attempt budget. \<open>running i\<close> says whether replication runs after attempt
  \<open>i\<close>; the result is whether a running state was reached, and the number of attempts
  made.
\<close>

fun start_attempts :: "(nat \<Rightarrow> bool) \<Rightarrow> nat \<Rightarrow> nat \<Rightarrow> bool \<times> nat" where
  "start_attempts running 0 i = (False, i)"
| "start_attempts running (Suc budget) i =
     (if running i then (True, Suc i) else start_attempts running budget (Suc i))"

definition spec_setup :: "(nat \<Rightarrow> bool) \<Rightarrow> string \<Rightarrow> nat \<Rightarrow> error + bool" where
  "spec_setup running rpl_user num_tries = Inr (fst (start_attempts running num_tries 0))"

section \<open>GTID sets and the skip engine\<close>

text \<open>
  Modelled from the spec: the \<open>GtidSet\<close> of section 3, a mapping from the UUID of a
  source server to ranges of transaction numbers, here the list of its entries; a range
  is the pair of its first and last number. The module that parses and subtracts GTID sets
  is not among the source files.
\<close>

type_synonym range = "nat \<times> nat"

type_synonym gtid_set = "(string \<times> range list) list"

text \<open>The GTIDs of a set: the pairs of a UUID and a transaction number.\<close>

definition range_numbers :: "range list \<Rightarrow> nat set" where
  "range_numbers rs = (\<Union>r\<in>set rs. {fst r..snd r})"

definition gtids :: "gtid_set \<Rightarrow> (string \<times> nat) set" where
  "gtids g = (\<Union>e\<in>set g. {fst e} \<times> range_numbers (snd e))"

text \<open>
  Modelled from the spec: the invariant of section 3, no range with start above end, and
  the ranges of one UUID sorted and not overlapping.
\<close>

fun ranges_ok :: "range list \<Rightarrow> bool" where
  "ranges_ok [] = True"
| "ranges_ok [r] = (fst r \<le> snd r)"
| "ranges_ok (r # r' # rs) = (fst r \<le> snd r \<and> snd r < fst r' \<and> ranges_ok (r' # rs))"

definition gtid_is_empty :: "gtid_set \<Rightarrow> bool" where
  "gtid_is_empty g = list_all (\<lambda>e. list_all (\<lambda>r. snd r < fst r) (snd e)) g"

text \<open>
  Modelled from the spec: the set difference of section 4.5, range subtraction per source
  UUID. One range minus one range leaves the part below and the part above.
\<close>

definition range_minus :: "range \<Rightarrow> range \<Rightarrow> range list" where
  "range_minus r x =
     (if snd r < fst r then []
      else if snd x < fst x \<or> snd r < fst x \<or> snd x < fst r then [r]
      else (if fst r < fst x then [(fst r, fst x - 1)] else []) @
           (if snd x < snd r then [(Suc (snd x), snd r)] else []))"

definition ranges_minus :: "range list \<Rightarrow> range \<Rightarrow> range list" where
  "ranges_minus rs x = concat (map (\<lambda>r. range_minus r x) rs)"

definition ranges_diff :: "range list \<Rightarrow> range list \<Rightarrow> range list" where
  "ranges_diff rs xs = fold (\<lambda>x acc. ranges_minus acc x) xs rs"

definition ranges_of :: "gtid_set \<Rightarrow> string \<Rightarrow> range list" where
  "ranges_of g u = concat (map snd (filter (\<lambda>e. fst e = u) g))"

definition gtid_diff :: "gtid_set \<Rightarrow> gtid_set \<Rightarrow> gtid_set" where
  "gtid_diff request executed_set =
     map (\<lambda>e. (fst e, ranges_diff (snd e) (ranges_of executed_set (fst e)))) request"

text \<open>
  Modelled from the spec: a subordinate as the skip engine of section 4.5 sees it, its
  name and its executed-GTID set.
\<close>

record subordinate =
  sub_name :: string
  executed :: gtid_set

datatype skip_status = NothingToSkip | Pending | Skipped | PartiallySkipped

text \<open>
  Modelled from the spec: the injection of empty transactions of section 4.5, range by
  range in the order of the list; each injected range advances the executed set, and the
  first failure ends the work on this subordinate. \<open>inject_ok u r\<close> says whether the
  injection of range \<open>r\<close> of UUID \<open>u\<close> succeeds. The result: whether every injection
  succeeded, the ranges injected, the executed set afterwards.
\<close>

fun inject_all ::
  "(string \<Rightarrow> range \<Rightarrow> bool) \<Rightarrow> (string \<times> range) list \<Rightarrow> gtid_set
     \<Rightarrow> bool \<times> (string \<times> range) list \<times> gtid_set" where
  "inject_all inject_ok [] ex = (True, [], ex)"
| "inject_all inject_ok ((u, r) # rest) ex =
     (if inject_ok u r
      then (case inject_all inject_ok rest (ex @ [(u, [r])]) of
              (ok, injected, ex') \<Rightarrow> (ok, (u, r) # injected, ex'))
      else (False, [], ex))"

definition pending_ranges :: "gtid_set \<Rightarrow> (string \<times> range) list" where
  "pending_ranges g = concat (map (\<lambda>e. map (Pair (fst e)) (snd e)) g)"

text \<open>
  Modelled from the spec: the work of \<open>skip\<close> on one subordinate (section 4.5): fetch the
  executed set, compute \<open>toSkip = requested - executed\<close>; an empty \<open>toSkip\<close> is
  "nothing to skip"; in dry-run mode \<open>toSkip\<close> is reported and nothing is injected;
  otherwise every remaining range is injected. The result: the status, \<open>toSkip\<close>, the
  ranges injected, and the subordinate afterwards.
\<close>

definition skip_one ::
  "(string \<Rightarrow> string \<Rightarrow> range \<Rightarrow> bool) \<Rightarrow> gtid_set \<Rightarrow> bool \<Rightarrow> subordinate
     \<Rightarrow> skip_status \<times> gtid_set \<times> (string \<times> range) list \<times> subordinate" where
  "skip_one inject_ok request dry_run sub =
     (let to_skip = gtid_diff request (executed sub) in
      if gtid_is_empty to_skip then (NothingToSkip, to_skip, [], sub)
      else if dry_run then (Pending, to_skip, [], sub)
      else (case inject_all (inject_ok (sub_name sub)) (pending_ranges to_skip) (executed sub) of
              (ok, injected, ex') \<Rightarrow>
                (if ok then Skipped else PartiallySkipped, to_skip, injected,
                 sub\<lparr>executed := ex'\<rparr>)))"

text \<open>
  Modelled from the spec: \<open>skip(gtidSet, subordinates, options{dryRun})\<close> of section 4.5,
  the function \<open>skip_subordinates_trx\<close> of \<open>command.rpl_admin\<close>, which is not among the
  source files: every subordinate is processed on its own, with one result each.
\<close>

definition skip ::
  "(string \<Rightarrow> string \<Rightarrow> range \<Rightarrow> bool) \<Rightarrow> gtid_set \<Rightarrow> subordinate list \<Rightarrow> bool
     \<Rightarrow> (skip_status \<times> gtid_set \<times> (string \<times> range) list \<times> subordinate) list" where
  "skip inject_ok request subordinates dry_run =
     map (skip_one inject_ok request dry_run) subordinates"

text \<open>The GTIDs of a list of ranges still to inject.\<close>

definition pending_gtids :: "(string \<times> range) list \<Rightarrow> (string \<times> nat) set" where
  "pending_gtids xs = (\<Union>p\<in>set xs. {fst p} \<times> {fst (snd p)..snd (snd p)})"

text \<open>
  An event of the script hands the flag \<open>b\<close> to the skip engine: a call of
  \<open>skip_subordinates_trx\<close> carries \<open>dry_run = b\<close>; every other event does not concern
  the flag.
\<close>

fun passes_dry_run :: "bool \<Rightarrow> event \<Rightarrow> bool" where
  "passes_dry_run b (SkipSubordinatesTrx g v d) = (d = b)"
| "passes_dry_run b ev = True"

section \<open>A concrete topology\<close>

text \<open>
  One possible behaviour of the collaborators, for concrete runs: the connection resolves
  a main and a subordinate that both have \<open>server_id = 1\<close>, labelled by their
  connection strings; the server-id check returns the finding modelled above, the
  binary-logging check returns the given findings, and \<open>Replication.setup\<close> is the
  bounded loop over the given attempts.
\<close>

definition scenario_world ::
  "string list \<Rightarrow> (nat \<Rightarrow> bool) \<Rightarrow> (server, server \<times> server) world" where
  "scenario_world binlog_findings running =
     \<lparr> connect_servers = (\<lambda>main_vals subordinate_vals c.
          Inr [\<lparr>label = main_vals, server_id = 1, server_uuid = ''uuid-'' @ main_vals\<rparr>,
               \<lparr>label = subordinate_vals, server_id = 1,
                server_uuid = ''uuid-'' @ subordinate_vals\<rparr>]),
       get_server_id = (\<lambda>s. show_nat (server_id s)),
       get_server_uuid = server_uuid,
       Replication = (\<lambda>m s opts. (m, s)),
       check_server_ids = (\<lambda>r. Inr (spec_check_server_ids (fst r) (snd r))),
       check_server_uuids = (\<lambda>r. Inr []),
       check_innodb_compatibility = (\<lambda>r opts. Inr [''WARNING: InnoDB settings differ.'']),
       check_storage_engines = (\<lambda>r opts. Inr []),
       check_main_binlog = (\<lambda>r. Inr binlog_findings),
       rpl_setup = (\<lambda>r. spec_setup running),
       rpl_test = (\<lambda>r db n. Inr ()) \<rparr>"

section \<open>A concrete daemon and a concrete script environment\<close>

text \<open>
  A multi-source daemon whose foreground \<open>start\<close> is interrupted from the keyboard and
  whose other operations return.
\<close>

definition interrupted_world :: "(string, unit) ms_world" where
  "interrupted_world =
     \<lparr> ReplicationMultiSource = (\<lambda>subordinate_vals mains_vals opts. ()),
       start = (\<lambda>rplms d. if detached d then Inr () else Inl KeyboardInterrupt),
       stop = (\<lambda>rplms. Inr ()),
       restart = (\<lambda>rplms. Inr ()),
       stop_replication = (\<lambda>rplms. Inr ()) \<rparr>"

text \<open>
  An environment of the script in which every check passes, except that the format check
  rejects one GTID string through \<open>parser.error\<close>.
\<close>

definition strict_world :: "string script_world" where
  "strict_world =
     \<lparr> check_python_version = Inr (),
       check_connector_python = True,
       check_password_security = (\<lambda>opt. Inr ()),
       PARSE_ERR_OPTS_REQ = (\<lambda>name. ''Option '' @ name @ '' is required.''),
       check_gtid_set_format = (\<lambda>g. if g = ''not-a-gtid-set''
          then Inl (ParserError ''Invalid value for --gtid-set.'') else Inr ()),
       parse_topology_connections = (\<lambda>opt. Inr (case opt_subordinates opt of
          None \<Rightarrow> [] | Some s \<Rightarrow> s)),
       skip_subordinates_trx = (\<lambda>g subs v d. Inr ()) \<rparr>"

section \<open>Facts about runs\<close>

lemma print_all_eq: "print_all es = (map Print es, Inr ())"
  by (induction es) (simp_all add: ret_def then_do_def print_def)

lemma then_do_Inr: "then_do (t, Inr x) f = apfst ((@) t) (f x)"
  by (simp add: then_do_def apfst_def map_prod_def split_beta)

lemma then_do_Inl: "then_do (t, Inl e) f = (t, Inl e)"
  by (simp add: then_do_def)

lemma fst_then_do:
  "fst (then_do m f) = fst m @ (case snd m of Inl e \<Rightarrow> [] | Inr x \<Rightarrow> fst (f x))"
  by (simp add: then_do_def split: sum.splits)

lemma no_setup_in_prints: "list_all (\<lambda>ev. \<not> is_Setup ev) (map Print fs)"
  by (simp add: list_all_iff)

lemma executed_checks_append:
  "executed_checks (xs @ ys) = executed_checks xs @ executed_checks ys"
  by (induction xs rule: executed_checks.induct) simp_all

lemma executed_checks_prints: "executed_checks (map Print fs) = []"
  by (induction fs) simp_all

lemmas run_simps = then_do_Inr then_do_Inl call_def run_check_def print_def ret_def raise_def
  py_index_def when_do_def print_all_eq

lemma run_binlog_findings:
  assumes "connect_servers w mv sv conn_options = Inr (m # s # rest)"
    and "check_server_ids w (Replication w m s (rpl_options_of options)) = Inr ids"
    and "check_server_uuids w (Replication w m s (rpl_options_of options)) = Inr uuids"
    and "check_innodb_compatibility w (Replication w m s (rpl_options_of options)) options
           = Inr innodb"
    and "check_storage_engines w (Replication w m s (rpl_options_of options)) options
           = Inr engines"
    and "check_main_binlog w (Replication w m s (rpl_options_of options)) = Inr (e # es)"
  shows "setup_replication w mv sv u options t =
          (preflight_trace w mv sv m s options ids uuids innodb engines @
           [Check MainBinlog (Inr (e # es))], Inl (UtilError e))"
  using assms
  by (simp add: setup_replication_def Let_def run_simps preflight_trace_def)

lemma run_binlog_enabled:
  assumes "connect_servers w mv sv conn_options = Inr (m # s # rest)"
    and "check_server_ids w (Replication w m s (rpl_options_of options)) = Inr ids"
    and "check_server_uuids w (Replication w m s (rpl_options_of options)) = Inr uuids"
    and "check_innodb_compatibility w (Replication w m s (rpl_options_of options)) options
           = Inr innodb"
    and "check_storage_engines w (Replication w m s (rpl_options_of options)) options
           = Inr engines"
    and "check_main_binlog w (Replication w m s (rpl_options_of options)) = Inr []"
  shows "setup_replication w mv sv u options t =
          apfst ((@) (preflight_trace w mv sv m s options ids uuids innodb engines @
                      [Check MainBinlog (Inr [])]))
            (configure w (Replication w m s (rpl_options_of options)) u t)"
  using assms
  by (simp add: setup_replication_def Let_def run_simps preflight_trace_def configure_def
      apfst_def map_prod_def split_beta)

lemma configure_calls_setup:
  "\<not> list_all (\<lambda>ev. \<not> is_Setup ev) (fst (configure w rpl u t))"
  by (simp add: configure_def fst_then_do run_simps)

lemma no_setup_in_preflight_trace:
  "list_all (\<lambda>ev. \<not> is_Setup ev) (preflight_trace w mv sv m s options ids uuids innodb engines)"
  by (simp add: preflight_trace_def no_setup_in_prints)

lemma prints_in_preflight_trace:
  "f \<in> set (ids @ uuids @ innodb @ engines) \<Longrightarrow>
     Print f \<in> set (preflight_trace w mv sv m s options ids uuids innodb engines)"
  by (auto simp add: preflight_trace_def)

lemma filter_setup_prints: "filter is_Setup (map Print fs) = []"
  by (induction fs) simp_all

lemma filter_setup_preflight_trace:
  "filter is_Setup (preflight_trace w mv sv m s options ids uuids innodb engines) = []"
  by (simp add: preflight_trace_def filter_setup_prints)

lemma start_attempts_bound: "snd (start_attempts running k i) \<le> i + k"
proof (induction k arbitrary: i)
  case 0
  then show ?case by simp
next
  case (Suc k)
  from Suc [of "Suc i"] show ?case by simp
qed

lemma start_attempts_first:
  "running i \<Longrightarrow> 0 < k \<Longrightarrow> start_attempts running k i = (True, Suc i)"
  by (cases k) simp_all

lemma start_attempts_exhausted:
  "(\<forall>j. i \<le> j \<and> j < i + k \<longrightarrow> \<not> running j) \<Longrightarrow> start_attempts running k i = (False, i + k)"
  by (induction k arbitrary: i) simp_all

lemma start_attempts_reached:
  "fst (start_attempts running k i) \<longleftrightarrow> (\<exists>j. i \<le> j \<and> j < i + k \<and> running j)"
proof (induction k arbitrary: i)
  case 0
  then show ?case by simp
next
  case (Suc k)
  show ?case
  proof (cases "running i")
    case True
    then show ?thesis by auto
  next
    case False
    have "(\<exists>j. Suc i \<le> j \<and> j < Suc i + k \<and> running j) \<longleftrightarrow>
          (\<exists>j. i \<le> j \<and> j < i + Suc k \<and> running j)"
      using False by (metis Suc_leD Suc_le_eq add_Suc add_Suc_right le_neq_implies_less)
    with False Suc show ?thesis by simp
  qed
qed

section \<open>The phases of \<open>setup_replication\<close>\<close>







lemma snd_then_do:
  "snd (then_do m f) = (case snd m of Inl e \<Rightarrow> Inl e | Inr x \<Rightarrow> snd (f x))"
  by (simp add: then_do_def split: sum.splits)

lemmas proj_simps = fst_then_do snd_then_do call_def run_check_def print_def ret_def raise_def
  when_do_def print_all_eq










section \<open>Facts about GTID sets and the skip engine\<close>

lemma range_numbers_Nil: "range_numbers [] = {}"
  by (simp add: range_numbers_def)

lemma range_numbers_Cons: "range_numbers (r # rs) = {fst r..snd r} \<union> range_numbers rs"
  by (simp add: range_numbers_def)

lemma range_numbers_append: "range_numbers (rs @ rs') = range_numbers rs \<union> range_numbers rs'"
  by (simp add: range_numbers_def)

lemma range_numbers_concat: "range_numbers (concat rss) = (\<Union>rs\<in>set rss. range_numbers rs)"
  by (induction rss) (simp_all add: range_numbers_Nil range_numbers_append)

lemma range_numbers_range_minus:
  "range_numbers (range_minus r x) = {fst r..snd r} - {fst x..snd x}"
proof (rule set_eqI)
  fix n
  show "n \<in> range_numbers (range_minus r x) \<longleftrightarrow> n \<in> {fst r..snd r} - {fst x..snd x}"
    by (cases r; cases x)
       (simp add: range_minus_def range_numbers_Nil range_numbers_Cons, arith)
qed

lemma range_numbers_ranges_minus:
  "range_numbers (ranges_minus rs x) = range_numbers rs - {fst x..snd x}"
  by (induction rs)
     (auto simp add: ranges_minus_def range_numbers_Nil range_numbers_Cons
        range_numbers_append range_numbers_range_minus)

lemma range_numbers_ranges_diff:
  "range_numbers (ranges_diff rs xs) = range_numbers rs - range_numbers xs"
  unfolding ranges_diff_def
proof (induction xs arbitrary: rs)
  case Nil
  then show ?case by (simp add: range_numbers_Nil)
next
  case (Cons x xs)
  then show ?case
    by (auto simp add: range_numbers_Cons range_numbers_ranges_minus)
qed

lemma gtids_mem: "(u, n) \<in> gtids g \<longleftrightarrow> (\<exists>rs. (u, rs) \<in> set g \<and> n \<in> range_numbers rs)"
  by (force simp add: gtids_def)

lemma range_numbers_ranges_of: "n \<in> range_numbers (ranges_of g u) \<longleftrightarrow> (u, n) \<in> gtids g"
  by (auto simp add: ranges_of_def range_numbers_concat gtids_mem)

lemma gtids_gtid_diff: "gtids (gtid_diff request ex) = gtids request - gtids ex"
proof (rule set_eqI)
  fix x :: "string \<times> nat"
  obtain u n where x: "x = (u, n)" by (cases x)
  have "(u, n) \<in> gtids (gtid_diff request ex) \<longleftrightarrow>
        (\<exists>rs. (u, rs) \<in> set request \<and> n \<in> range_numbers (ranges_diff rs (ranges_of ex u)))"
    by (force simp add: gtids_mem gtid_diff_def)
  also have "\<dots> \<longleftrightarrow> (\<exists>rs. (u, rs) \<in> set request \<and> n \<in> range_numbers rs) \<and> (u, n) \<notin> gtids ex"
    by (auto simp add: range_numbers_ranges_diff range_numbers_ranges_of)
  also have "\<dots> \<longleftrightarrow> (u, n) \<in> gtids request - gtids ex"
    by (simp add: gtids_mem)
  finally show "x \<in> gtids (gtid_diff request ex) \<longleftrightarrow> x \<in> gtids request - gtids ex"
    by (simp add: x)
qed

lemma range_numbers_empty: "range_numbers rs = {} \<longleftrightarrow> list_all (\<lambda>r. snd r < fst r) rs"
  by (induction rs) (auto simp add: range_numbers_Nil range_numbers_Cons)

lemma gtid_is_empty_iff: "gtid_is_empty g \<longleftrightarrow> gtids g = {}"
  by (induction g)
     (auto simp add: gtid_is_empty_def gtids_def range_numbers_empty [symmetric])

lemma gtids_append: "gtids (g @ h) = gtids g \<union> gtids h"
  by (simp add: gtids_def)

lemma pending_gtids_pending_ranges: "pending_gtids (pending_ranges g) = gtids g"
  by (auto simp add: pending_gtids_def pending_ranges_def gtids_def range_numbers_def)

lemma inject_all_ok:
  "inject_all ok xs ex = (True, injd, ex') \<Longrightarrow>
     injd = xs \<and> gtids ex' = gtids ex \<union> pending_gtids xs"
proof (induction xs arbitrary: ex injd)
  case Nil
  then show ?case by (simp add: pending_gtids_def)
next
  case (Cons p xs)
  obtain u r where p: "p = (u, r)" by (cases p)
  from Cons.prems p have okp: "ok u r"
    by (simp split: if_splits)
  obtain b injd' ex'' where rec: "inject_all ok xs (ex @ [(u, [r])]) = (b, injd', ex'')"
    by (cases "inject_all ok xs (ex @ [(u, [r])])") auto
  from Cons.prems p okp rec have "b" and "injd = (u, r) # injd'" and "ex'' = ex'"
    by simp_all
  with rec have "inject_all ok xs (ex @ [(u, [r])]) = (True, injd', ex')" by simp
  from Cons.IH [OF this] have "injd' = xs" and "gtids ex' = gtids (ex @ [(u, [r])]) \<union> pending_gtids xs"
    by simp_all
  with \<open>injd = (u, r) # injd'\<close> p show ?case
    by (auto simp add: gtids_append pending_gtids_def gtids_def range_numbers_def)
qed

lemma skip_one_to_skip:
  "fst (snd (skip_one inject_ok request dry_run sub)) = gtid_diff request (executed sub)"
  by (simp add: skip_one_def Let_def split: prod.splits)

lemma skip_one_success_covers:
  assumes "skip_one inject_ok request False sub = (st, ts, injd, sub')"
    and "st \<noteq> PartiallySkipped"
  shows "gtids request \<subseteq> gtids (executed sub')"
proof (cases "gtid_is_empty (gtid_diff request (executed sub))")
  case True
  with assms have "sub' = sub" by (simp add: skip_one_def Let_def)
  moreover from True have "gtids request - gtids (executed sub) = {}"
    by (simp add: gtid_is_empty_iff gtids_gtid_diff)
  ultimately show ?thesis by auto
next
  case False
  obtain b injd' ex' where rec:
    "inject_all (inject_ok (sub_name sub)) (pending_ranges (gtid_diff request (executed sub)))
       (executed sub) = (b, injd', ex')"
    by (cases "inject_all (inject_ok (sub_name sub))
                 (pending_ranges (gtid_diff request (executed sub))) (executed sub)") auto
  with assms False have "b" and "sub' = sub\<lparr>executed := ex'\<rparr>"
    by (auto simp add: skip_one_def Let_def split: if_splits)
  with rec inject_all_ok [of "inject_ok (sub_name sub)" _ "executed sub" injd' ex']
  have "gtids ex' = gtids (executed sub) \<union> gtids (gtid_diff request (executed sub))"
    by (simp add: pending_gtids_pending_ranges)
  with \<open>sub' = sub\<lparr>executed := ex'\<rparr>\<close> show ?thesis
    by (auto simp add: gtids_gtid_diff)
qed

lemma ranges_ok_iff:
  "ranges_ok rs \<longleftrightarrow>
     (\<forall>r\<in>set rs. fst r \<le> snd r) \<and> sorted_wrt (\<lambda>a b. snd a < fst b) rs"
proof (induction rs rule: ranges_ok.induct)
  case 1
  then show ?case by simp
next
  case (2 r)
  then show ?case by simp
next
  case (3 r r' rs)
  show ?case
  proof
    assume "ranges_ok (r # r' # rs)"
    then have a: "fst r \<le> snd r" "snd r < fst r'" "ranges_ok (r' # rs)"
      by simp_all
    with 3 have b: "\<forall>q\<in>set (r' # rs). fst q \<le> snd q"
      and c: "sorted_wrt (\<lambda>a b. snd a < fst b) (r' # rs)"
      by simp_all
    have "snd r < fst q" if "q \<in> set rs" for q
    proof -
      from c that have "snd r' < fst q" by simp
      moreover from b have "fst r' \<le> snd r'" by simp
      ultimately show ?thesis using a(2) by linarith
    qed
    with a b c show "(\<forall>r\<in>set (r # r' # rs). fst r \<le> snd r) \<and>
        sorted_wrt (\<lambda>a b. snd a < fst b) (r # r' # rs)"
      by simp
  next
    assume "(\<forall>r\<in>set (r # r' # rs). fst r \<le> snd r) \<and>
        sorted_wrt (\<lambda>a b. snd a < fst b) (r # r' # rs)"
    with 3 show "ranges_ok (r # r' # rs)" by simp
  qed
qed

lemma range_minus_pieces_pair:
  "p \<in> set (range_minus (a, b) (c, d)) \<Longrightarrow> a \<le> fst p \<and> snd p \<le> b \<and> fst p \<le> snd p"
  by (auto simp add: range_minus_def split: if_split_asm)

lemma range_minus_pieces:
  "p \<in> set (range_minus r x) \<Longrightarrow> fst r \<le> fst p \<and> snd p \<le> snd r \<and> fst p \<le> snd p"
  using range_minus_pieces_pair [of p "fst r" "snd r" "fst x" "snd x"] by simp

lemma range_minus_sorted: "sorted_wrt (\<lambda>a b. snd a < fst b) (range_minus r x)"
  by (cases r; cases x) (auto simp add: range_minus_def)

lemma ranges_minus_ok: "ranges_ok rs \<Longrightarrow> ranges_ok (ranges_minus rs x)"
  unfolding ranges_ok_iff
proof (induction rs)
  case Nil
  then show ?case by (simp add: ranges_minus_def)
next
  case (Cons r rs)
  then have ih: "(\<forall>r\<in>set (ranges_minus rs x). fst r \<le> snd r)"
    "sorted_wrt (\<lambda>a b. snd a < fst b) (ranges_minus rs x)"
    by simp_all
  have later: "snd r < fst q" if "q \<in> set (ranges_minus rs x)" for q
  proof -
    from that obtain r' where r': "r' \<in> set rs" "q \<in> set (range_minus r' x)"
      by (auto simp add: ranges_minus_def)
    from Cons.prems r'(1) have "snd r < fst r'" by simp
    with range_minus_pieces [OF r'(2)] show ?thesis by simp
  qed
  have cons: "ranges_minus (r # rs) x = range_minus r x @ ranges_minus rs x"
    by (simp add: ranges_minus_def)
  show ?case
    unfolding cons
    using ih later range_minus_pieces [of _ r x] range_minus_sorted [of r x]
    by (fastforce simp add: sorted_wrt_append)
qed

lemma ranges_diff_ok: "ranges_ok rs \<Longrightarrow> ranges_ok (ranges_diff rs xs)"
  unfolding ranges_diff_def
  by (induction xs arbitrary: rs) (simp_all add: ranges_minus_ok)

lemma gtid_diff_ok:
  "list_all (\<lambda>e. ranges_ok (snd e)) request \<Longrightarrow>
     list_all (\<lambda>e. ranges_ok (snd e)) (gtid_diff request ex)"
  by (simp add: gtid_diff_def list_all_iff ranges_diff_ok)

lemma fst_except_UtilRplError:
  "list_all (passes_dry_run b) (fst (except_UtilRplError m)) = list_all (passes_dry_run b) (fst m)"
  by (simp add: except_UtilRplError_def report_and_exit_def run_simps
      split: sum.splits error.splits)

lemma fst_except_UtilError:
  "list_all (passes_dry_run b) (fst (except_UtilError m)) = list_all (passes_dry_run b) (fst m)"
  by (simp add: except_UtilError_def report_and_exit_def run_simps
      split: sum.splits error.splits)

lemma script_passes_dry_run:
  "list_all (passes_dry_run (opt_dry_run opt)) (fst (mysqlslavetrx w opt))"
  by (simp add: mysqlslavetrx_def fst_then_do Let_def fst_except_UtilError
      fst_except_UtilRplError call_def ret_def raise_def required_def
      split: sum.splits option.splits)

section \<open>The pre-flight phase of \<open>setup_replication\<close>\<close>

text \<open>
  C1. For a resolved main/subordinate pair whose five checks return their findings,
  \<open>setup_replication\<close> aborts in the pre-flight phase (it raises, and
  \<open>Replication.setup\<close> has not been called) exactly when the binary-logging check
  returned a non-empty list, and then with the first of these findings. Every finding of
  the server-id, UUID, InnoDB and storage-engine checks is printed, and none of them
  decides the abort.
\<close>

theorem preflight_abort_iff_binlog_findings:
  assumes "connect_servers w mv sv conn_options = Inr (m # s # rest)"
    and "check_server_ids w (Replication w m s (rpl_options_of options)) = Inr ids"
    and "check_server_uuids w (Replication w m s (rpl_options_of options)) = Inr uuids"
    and "check_innodb_compatibility w (Replication w m s (rpl_options_of options)) options
           = Inr innodb"
    and "check_storage_engines w (Replication w m s (rpl_options_of options)) options
           = Inr engines"
    and "check_main_binlog w (Replication w m s (rpl_options_of options)) = Inr binlog"
  shows "(preflight_abort (setup_replication w mv sv u options t) \<longleftrightarrow> binlog \<noteq> []) \<and>
         (binlog \<noteq> [] \<longrightarrow>
            snd (setup_replication w mv sv u options t) = Inl (UtilError (hd binlog))) \<and>
         (\<forall>f \<in> set (ids @ uuids @ innodb @ engines).
            Print f \<in> set (fst (setup_replication w mv sv u options t)))"
proof (cases binlog)
  case Nil
  have run: "setup_replication w mv sv u options t =
          apfst ((@) (preflight_trace w mv sv m s options ids uuids innodb engines @
                      [Check MainBinlog (Inr [])]))
            (configure w (Replication w m s (rpl_options_of options)) u t)"
    using assms Nil by (simp add: run_binlog_enabled)
  have "\<not> preflight_abort (setup_replication w mv sv u options t)"
    by (simp add: run preflight_abort_def configure_calls_setup)
  moreover have "\<forall>f \<in> set (ids @ uuids @ innodb @ engines).
            Print f \<in> set (fst (setup_replication w mv sv u options t))"
    using prints_in_preflight_trace [of _ ids uuids innodb engines w mv sv m s options]
    by (simp add: run)
  ultimately show ?thesis using Nil by simp
next
  case (Cons e es)
  have run: "setup_replication w mv sv u options t =
          (preflight_trace w mv sv m s options ids uuids innodb engines @
           [Check MainBinlog (Inr (e # es))], Inl (UtilError e))"
    using assms Cons by (simp add: run_binlog_findings)
  have "preflight_abort (setup_replication w mv sv u options t)"
    by (simp add: run preflight_abort_def no_setup_in_preflight_trace)
  moreover have "\<forall>f \<in> set (ids @ uuids @ innodb @ engines).
            Print f \<in> set (fst (setup_replication w mv sv u options t))"
    using prints_in_preflight_trace [of _ ids uuids innodb engines w mv sv m s options]
    by (simp add: run)
  ultimately show ?thesis using Cons by (simp add: run)
qed


theorem preflight_abort_iff_binlog_findings_witness:
  "preflight_abort
     (setup_replication (scenario_world [''log_bin is OFF''] (\<lambda>i. True))
        ''A'' ''B'' ''rpl:pw'' Map.empty None) \<and>
   snd (setup_replication (scenario_world [''log_bin is OFF''] (\<lambda>i. True))
        ''A'' ''B'' ''rpl:pw'' Map.empty None) = Inl (UtilError ''log_bin is OFF'') \<and>
   Print ''server_id collision: A and B''
     \<in> set (fst (setup_replication (scenario_world [''log_bin is OFF''] (\<lambda>i. True))
        ''A'' ''B'' ''rpl:pw'' Map.empty None)) \<and>
   \<not> preflight_abort
     (setup_replication (scenario_world [] (\<lambda>i. True))
        ''A'' ''B'' ''rpl:pw'' Map.empty None)"
  using preflight_abort_iff_binlog_findings
          [where w = "scenario_world [''log_bin is OFF''] (\<lambda>i. True)"
             and mv = "''A''" and sv = "''B''" and u = "''rpl:pw''" and options = Map.empty
             and t = None and binlog = "[''log_bin is OFF'']"
             and ids = "[''server_id collision: A and B'']"
             and uuids = "[]" and innodb = "[''WARNING: InnoDB settings differ.'']"
             and engines = "[]"
             and m = "\<lparr>label = ''A'', server_id = 1, server_uuid = ''uuid-A''\<rparr>"
             and s = "\<lparr>label = ''B'', server_id = 1, server_uuid = ''uuid-B''\<rparr>"
             and rest = "[]"]
        preflight_abort_iff_binlog_findings
          [where w = "scenario_world [] (\<lambda>i. True)"
             and mv = "''A''" and sv = "''B''" and u = "''rpl:pw''" and options = Map.empty
             and t = None and binlog = "[]"
             and ids = "[''server_id collision: A and B'']"
             and uuids = "[]" and innodb = "[''WARNING: InnoDB settings differ.'']"
             and engines = "[]"
             and m = "\<lparr>label = ''A'', server_id = 1, server_uuid = ''uuid-A''\<rparr>"
             and s = "\<lparr>label = ''B'', server_id = 1, server_uuid = ''uuid-B''\<rparr>"
             and rest = "[]"]
  by (simp add: scenario_world_def spec_check_server_ids_def)

text \<open>
  C10. When the binary-logging check returns the findings \<open>e # es\<close>, the run ends right
  after that check: the exception carries \<open>e\<close> alone, and no event follows the call of
  the check, so no finding of \<open>es\<close> is printed or raised.
\<close>

theorem binlog_error_carries_first_finding:
  assumes "connect_servers w mv sv conn_options = Inr (m # s # rest)"
    and "check_server_ids w (Replication w m s (rpl_options_of options)) = Inr ids"
    and "check_server_uuids w (Replication w m s (rpl_options_of options)) = Inr uuids"
    and "check_innodb_compatibility w (Replication w m s (rpl_options_of options)) options
           = Inr innodb"
    and "check_storage_engines w (Replication w m s (rpl_options_of options)) options
           = Inr engines"
    and "check_main_binlog w (Replication w m s (rpl_options_of options)) = Inr (e # es)"
  shows "setup_replication w mv sv u options t =
          ([ConnectServers mv sv, Check ServerIds (Inr ids)] @ map Print ids @
           (if py_gt_zero (dict_get options ''verbosity'' (PInt 0))
            then [Print (''# main id = '' @ get_server_id w m),
                  Print (''#  subordinate id = '' @ get_server_id w s)] else []) @
           [Check ServerUuids (Inr uuids)] @ map Print uuids @
           (if py_gt_zero (dict_get options ''verbosity'' (PInt 0))
            then [Print (''# main uuid = '' @ get_server_uuid w m),
                  Print (''#  subordinate uuid = '' @ get_server_uuid w s),
                  Print ''# Checking InnoDB statistics for type and version conflicts.'']
            else []) @
           [Check InnodbCompatibility (Inr innodb)] @ map Print innodb @
           (if py_gt_zero (dict_get options ''verbosity'' (PInt 0))
            then [Print ''# Checking storage engines...''] else []) @
           [Check StorageEngines (Inr engines)] @ map Print engines @
           [Print ''# Checking for binary logging on main...'',
            Check MainBinlog (Inr (e # es))],
           Inl (UtilError e))"
  using run_binlog_findings [OF assms, of u t]
  by (simp add: preflight_trace_def)

theorem binlog_error_carries_first_finding_witness:
  "setup_replication (scenario_world [''log_bin is OFF'', ''binlog_format is unset'']
       (\<lambda>i. True)) ''A'' ''B'' ''rpl:pw'' Map.empty None =
     ([ConnectServers ''A'' ''B'',
       Check ServerIds (Inr [''server_id collision: A and B'']),
       Print ''server_id collision: A and B'',
       Check ServerUuids (Inr []),
       Check InnodbCompatibility (Inr [''WARNING: InnoDB settings differ.'']),
       Print ''WARNING: InnoDB settings differ.'',
       Check StorageEngines (Inr []),
       Print ''# Checking for binary logging on main...'',
       Check MainBinlog (Inr [''log_bin is OFF'', ''binlog_format is unset''])],
      Inl (UtilError ''log_bin is OFF''))"
  using binlog_error_carries_first_finding
          [where w = "scenario_world [''log_bin is OFF'', ''binlog_format is unset'']
                        (\<lambda>i. True)"
             and mv = "''A''" and sv = "''B''" and u = "''rpl:pw''" and options = Map.empty
             and t = None and e = "''log_bin is OFF''" and es = "[''binlog_format is unset'']"
             and ids = "[''server_id collision: A and B'']"
             and uuids = "[]" and innodb = "[''WARNING: InnoDB settings differ.'']"
             and engines = "[]"
             and m = "\<lparr>label = ''A'', server_id = 1, server_uuid = ''uuid-A''\<rparr>"
             and s = "\<lparr>label = ''B'', server_id = 1, server_uuid = ''uuid-B''\<rparr>"
             and rest = "[]"]
  by (simp add: scenario_world_def spec_check_server_ids_def dict_get_def)

text \<open>
  C5. The checks a run executes are always an initial part of the list server ids, server
  UUIDs, InnoDB compatibility, storage engines, binary logging, in this order; when the
  pair is resolved and the first four checks return, they are all five, none skipped and
  none reordered.
\<close>

theorem checks_run_in_fixed_order:
  "prefix (executed_checks (fst (setup_replication w mv sv u options t))) preflight_checks \<and>
   (connect_servers w mv sv conn_options = Inr (m # s # rest) \<and>
    check_server_ids w (Replication w m s (rpl_options_of options)) = Inr ids \<and>
    check_server_uuids w (Replication w m s (rpl_options_of options)) = Inr uuids \<and>
    check_innodb_compatibility w (Replication w m s (rpl_options_of options)) options
      = Inr innodb \<and>
    check_storage_engines w (Replication w m s (rpl_options_of options)) options
      = Inr engines
    \<longrightarrow> executed_checks (fst (setup_replication w mv sv u options t)) = preflight_checks)"
  by (simp add: setup_replication_def Let_def run_simps fst_then_do preflight_checks_def
       executed_checks_append executed_checks_prints
        split: sum.splits list.splits option.splits)

theorem checks_run_in_fixed_order_witness:
  "executed_checks
     (fst (setup_replication (scenario_world [''log_bin is OFF''] (\<lambda>i. True))
        ''A'' ''B'' ''rpl:pw'' Map.empty None)) =
   [ServerIds, ServerUuids, InnodbCompatibility, StorageEngines, MainBinlog]"
  using checks_run_in_fixed_order
          [where w = "scenario_world [''log_bin is OFF''] (\<lambda>i. True)"
             and ids = "[''server_id collision: A and B'']"
             and mv = "''A''" and sv = "''B''" and u = "''rpl:pw''" and options = Map.empty
             and t = None
             and uuids = "[]" and innodb = "[''WARNING: InnoDB settings differ.'']"
             and engines = "[]"
             and m = "\<lparr>label = ''A'', server_id = 1, server_uuid = ''uuid-A''\<rparr>"
             and s = "\<lparr>label = ''B'', server_id = 1, server_uuid = ''uuid-B''\<rparr>"
             and rest = "[]"]
  by (simp add: scenario_world_def spec_check_server_ids_def preflight_checks_def)

section \<open>The configuration step\<close>

text \<open>
  C7. Once the pre-flight phase has passed, \<open>setup_replication\<close> calls
  \<open>Replication.setup\<close> once, with the attempt budget 10. With the bounded loop of the
  spec behind that call, at most 10 start attempts are made; when none of the 10 reaches a
  running state, all 10 have been made and the run ends at that call with
  \<open>UtilError("Cannot setup replication.")\<close>; when one of them does and no test database
  is given, the run succeeds.
\<close>

theorem setup_attempt_budget:
  assumes "connect_servers w mv sv conn_options = Inr (m # s # rest)"
    and "check_server_ids w (Replication w m s (rpl_options_of options)) = Inr ids"
    and "check_server_uuids w (Replication w m s (rpl_options_of options)) = Inr uuids"
    and "check_innodb_compatibility w (Replication w m s (rpl_options_of options)) options
           = Inr innodb"
    and "check_storage_engines w (Replication w m s (rpl_options_of options)) options
           = Inr engines"
    and "check_main_binlog w (Replication w m s (rpl_options_of options)) = Inr []"
    and "rpl_setup w (Replication w m s (rpl_options_of options)) = spec_setup running"
  shows "filter is_Setup (fst (setup_replication w mv sv u options t)) = [Setup u 10] \<and>
         snd (start_attempts running 10 0) \<le> 10 \<and>
         ((\<forall>i<10. \<not> running i) \<longrightarrow>
            start_attempts running 10 0 = (False, 10) \<and>
            snd (setup_replication w mv sv u options t)
              = Inl (UtilError ''Cannot setup replication.'') \<and>
            last (fst (setup_replication w mv sv u options t)) = Setup u 10) \<and>
         ((\<exists>i<10. running i) \<and> t = None \<longrightarrow>
            snd (setup_replication w mv sv u options t) = Inr ())"
proof -
  let ?rpl = "Replication w m s (rpl_options_of options)"
  have run: "setup_replication w mv sv u options t =
          apfst ((@) (preflight_trace w mv sv m s options ids uuids innodb engines @
                      [Check MainBinlog (Inr [])]))
            (configure w ?rpl u t)"
    using assms(1-6) by (rule run_binlog_enabled)
  have bound: "snd (start_attempts running 10 0) \<le> 10"
    using start_attempts_bound [of running 10 0] by simp
  have one: "filter is_Setup (fst (setup_replication w mv sv u options t)) = [Setup u 10]"
    by (simp add: run filter_setup_preflight_trace configure_def fst_then_do run_simps
        split: sum.splits option.splits)
  have fail: "start_attempts running 10 0 = (False, 10) \<and>
      snd (setup_replication w mv sv u options t) = Inl (UtilError ''Cannot setup replication.'') \<and>
      last (fst (setup_replication w mv sv u options t)) = Setup u 10"
    if "\<forall>i<10. \<not> running i"
  proof -
    have ex: "start_attempts running 10 0 = (False, 10)"
      using start_attempts_exhausted [of 0 10 running] that by simp
    then show ?thesis
      by (simp add: run configure_def run_simps assms(7) spec_setup_def)
  qed
  have ok: "snd (setup_replication w mv sv u options t) = Inr ()"
    if "\<exists>i<10. running i" and "t = None"
  proof -
    have "fst (start_attempts running 10 0)"
      using start_attempts_reached [of running 10 0] that(1) by simp
    then have "snd (configure w ?rpl u None) = Inr ()"
      by (simp add: configure_def run_simps assms(7) spec_setup_def)
    with run that(2) show ?thesis by simp
  qed
  from one bound fail ok show ?thesis by blast
qed

theorem setup_attempt_budget_witness:
  "filter is_Setup
     (fst (setup_replication (scenario_world [] (\<lambda>i. False))
        ''A'' ''B'' ''rpl:pw'' Map.empty None)) = [Setup ''rpl:pw'' 10] \<and>
   start_attempts (\<lambda>i. False) 10 0 = (False, 10) \<and>
   snd (setup_replication (scenario_world [] (\<lambda>i. False))
        ''A'' ''B'' ''rpl:pw'' Map.empty None) = Inl (UtilError ''Cannot setup replication.'') \<and>
   snd (setup_replication (scenario_world [] (\<lambda>i. i = 3))
        ''A'' ''B'' ''rpl:pw'' Map.empty None) = Inr ()"
  using setup_attempt_budget
          [where w = "scenario_world [] (\<lambda>i. False)" and running = "\<lambda>i. False"
             and ids = "[''server_id collision: A and B'']"
             and mv = "''A''" and sv = "''B''" and u = "''rpl:pw''" and options = Map.empty
             and t = None
             and uuids = "[]" and innodb = "[''WARNING: InnoDB settings differ.'']"
             and engines = "[]"
             and m = "\<lparr>label = ''A'', server_id = 1, server_uuid = ''uuid-A''\<rparr>"
             and s = "\<lparr>label = ''B'', server_id = 1, server_uuid = ''uuid-B''\<rparr>"
             and rest = "[]"]
        setup_attempt_budget
          [where w = "scenario_world [] (\<lambda>i. i = 3)" and running = "\<lambda>i. i = 3"
             and ids = "[''server_id collision: A and B'']"
             and mv = "''A''" and sv = "''B''" and u = "''rpl:pw''" and options = Map.empty
             and t = None
             and uuids = "[]" and innodb = "[''WARNING: InnoDB settings differ.'']"
             and engines = "[]"
             and m = "\<lparr>label = ''A'', server_id = 1, server_uuid = ''uuid-A''\<rparr>"
             and s = "\<lparr>label = ''B'', server_id = 1, server_uuid = ''uuid-B''\<rparr>"
             and rest = "[]"]
  by (simp add: scenario_world_def spec_check_server_ids_def)

section \<open>Exceptions of the collaborators\<close>

text \<open>
  \<open>setup_replication\<close> has no handler. An exception raised by \<open>connect_servers\<close> (the
  connection is made with \<open>'unique': True\<close>) ends the run before any check, and an
  exception raised by \<open>check_server_ids\<close> ends it at that check; in both runs nothing is
  printed and \<open>Replication.setup\<close> is not called. Findings that the check returns are
  printed and the run goes on, as shown above for the pre-flight phase.
\<close>

lemma connector_exception_propagates:
  assumes "connect_servers w mv sv conn_options = Inl e"
  shows "setup_replication w mv sv u options t = ([ConnectServers mv sv], Inl e)"
  using assms by (simp add: setup_replication_def Let_def run_simps)

lemma server_id_check_exception_propagates:
  assumes "connect_servers w mv sv conn_options = Inr (m # s # rest)"
    and "check_server_ids w (Replication w m s (rpl_options_of options)) = Inl e"
  shows "setup_replication w mv sv u options t =
           ([ConnectServers mv sv, Check ServerIds (Inl e)], Inl e)"
  using assms by (simp add: setup_replication_def Let_def run_simps)

section \<open>\<open>start_ms_replication\<close> and the daemon option\<close>

text \<open>
  C9. \<open>start_ms_replication\<close> dispatches on \<open>options.get("daemon", None)\<close>:
  \<open>"start"\<close> calls \<open>start()\<close>, the detached mode, \<open>"stop"\<close> calls \<open>stop()\<close>,
  \<open>"restart"\<close> calls \<open>restart()\<close>; every other value, the absent one included, calls
  \<open>start(detach_process=False)\<close>, the foreground mode. A \<open>KeyboardInterrupt\<close> out of
  the foreground call is caught and \<open>stop_replication()\<close> is called, whose result is
  the result of the run; any other result of \<open>start\<close> is the result of the run.
\<close>

theorem start_ms_replication_dispatch:
  "(dict_get options ''daemon'' PNone = PStr ''start'' \<longrightarrow>
      detached None \<and>
      start_ms_replication w sv mvs options =
        ([Start None], start w (ReplicationMultiSource w sv mvs options) None)) \<and>
   (dict_get options ''daemon'' PNone = PStr ''stop'' \<longrightarrow>
      start_ms_replication w sv mvs options =
        ([Stop], stop w (ReplicationMultiSource w sv mvs options))) \<and>
   (dict_get options ''daemon'' PNone = PStr ''restart'' \<longrightarrow>
      start_ms_replication w sv mvs options =
        ([Restart], restart w (ReplicationMultiSource w sv mvs options))) \<and>
   (dict_get options ''daemon'' PNone \<noteq> PStr ''start'' \<and>
    dict_get options ''daemon'' PNone \<noteq> PStr ''stop'' \<and>
    dict_get options ''daemon'' PNone \<noteq> PStr ''restart'' \<longrightarrow>
      \<not> detached (Some False) \<and>
      (start w (ReplicationMultiSource w sv mvs options) (Some False) = Inl KeyboardInterrupt
         \<longrightarrow> start_ms_replication w sv mvs options =
               ([Start (Some False), StopReplication],
                stop_replication w (ReplicationMultiSource w sv mvs options))) \<and>
      (start w (ReplicationMultiSource w sv mvs options) (Some False) \<noteq> Inl KeyboardInterrupt
         \<longrightarrow> start_ms_replication w sv mvs options =
               ([Start (Some False)],
                start w (ReplicationMultiSource w sv mvs options) (Some False))))"
  by (auto simp add: start_ms_replication_def Let_def call_def except_KeyboardInterrupt_def
      split: sum.splits error.splits)

theorem start_ms_replication_dispatch_witness:
  "start_ms_replication interrupted_world ''sub'' [''m1'', ''m2''] Map.empty =
     ([Start (Some False), StopReplication], Inr ()) \<and>
   start_ms_replication interrupted_world ''sub'' [''m1'', ''m2''] [''daemon'' \<mapsto> PStr ''start''] =
     ([Start None], Inr ()) \<and>
   start_ms_replication interrupted_world ''sub'' [''m1'', ''m2''] [''daemon'' \<mapsto> PStr ''stop''] =
     ([Stop], Inr ()) \<and>
   start_ms_replication interrupted_world ''sub'' [''m1'', ''m2''] [''daemon'' \<mapsto> PStr ''restart''] =
     ([Restart], Inr ())"
  using start_ms_replication_dispatch [of Map.empty interrupted_world "''sub''" "[''m1'', ''m2'']"]
        start_ms_replication_dispatch [of "[''daemon'' \<mapsto> PStr ''start'']" interrupted_world "''sub''" "[''m1'', ''m2'']"]
        start_ms_replication_dispatch [of "[''daemon'' \<mapsto> PStr ''stop'']" interrupted_world "''sub''" "[''m1'', ''m2'']"]
        start_ms_replication_dispatch [of "[''daemon'' \<mapsto> PStr ''restart'']" interrupted_world "''sub''" "[''m1'', ''m2'']"]
  by (simp add: dict_get_def interrupted_world_def)


section \<open>The GTID format check of the script\<close>

text \<open>
  C6. When the format check rejects the GTID string of \<open>--gtid-set\<close>, the script ends
  with an exception and its run holds no call of \<open>parse_topology_connections\<close> and no
  call of \<open>skip_subordinates_trx\<close>: no subordinate is contacted. When the earlier
  statements of the script pass (the version, connector and password checks, and the two
  required options are given and not empty), the run is exactly these checks followed by
  the format check, and the exception is the one the format check raised.
\<close>

theorem malformed_gtid_set_fails_before_contact:
  assumes "opt_gtid_set opt = Some g" and "check_gtid_set_format w g = Inl e"
  shows "isl (snd (mysqlslavetrx w opt)) \<and>
         list_all (\<lambda>ev. \<not> contacts_subordinate ev) (fst (mysqlslavetrx w opt)) \<and>
         (check_python_version w = Inr () \<and> check_connector_python w \<and>
          check_password_security w opt = Inr () \<and> g \<noteq> [] \<and>
          opt_subordinates opt = Some subs \<and> subs \<noteq> []
          \<longrightarrow> mysqlslavetrx w opt =
                ([CheckPythonVersion, CheckPasswordSecurity, CheckGtidSetFormat g], Inl e))"
proof (cases "check_python_version w")
  case (Inl x)
  then show ?thesis by (simp add: mysqlslavetrx_def run_simps)
next
  case pv: (Inr x)
  show ?thesis
  proof (cases "check_connector_python w")
    case False
    with pv show ?thesis by (simp add: mysqlslavetrx_def run_simps)
  next
    case cp: True
    show ?thesis
    proof (cases "check_password_security w opt")
      case (Inl x)
      with pv cp show ?thesis by (simp add: mysqlslavetrx_def run_simps)
    next
      case ps: (Inr y)
      show ?thesis
      proof (cases "g = []")
        case True
        with pv cp ps assms show ?thesis
          by (simp add: mysqlslavetrx_def run_simps required_def)
      next
        case g: False
        show ?thesis
        proof (cases "opt_subordinates opt")
          case None
          with pv cp ps g assms show ?thesis
            by (simp add: mysqlslavetrx_def run_simps required_def)
        next
          case (Some s)
          with pv cp ps g assms show ?thesis
            by (cases "s = []") (simp_all add: mysqlslavetrx_def run_simps required_def)
        qed
      qed
    qed
  qed
qed

theorem malformed_gtid_set_fails_before_contact_witness:
  "mysqlslavetrx strict_world
     \<lparr>opt_gtid_set = Some ''not-a-gtid-set'', opt_subordinates = Some ''rpl:pw@host2:3306'',
      opt_dry_run = False, opt_verbosity = None, opt_main = None\<rparr> =
     ([CheckPythonVersion, CheckPasswordSecurity, CheckGtidSetFormat ''not-a-gtid-set''],
      Inl (ParserError ''Invalid value for --gtid-set.''))"
  using malformed_gtid_set_fails_before_contact [of "\<lparr>opt_gtid_set = Some ''not-a-gtid-set'',
                  opt_subordinates = Some ''rpl:pw@host2:3306'',
                  opt_dry_run = False, opt_verbosity = None, opt_main = None\<rparr>"
               "''not-a-gtid-set''" strict_world "ParserError ''Invalid value for --gtid-set.''"
               "''rpl:pw@host2:3306''"]
  by (simp add: strict_world_def)


section \<open>The skip engine\<close>

text \<open>
  C2. For every request and every subordinate, the \<open>toSkip\<close> the skip engine computes is
  the difference of the request and the executed set: as sets of GTIDs it is the request
  minus the executed set, it shares no GTID with the executed set, and together with the
  executed set it covers the request, also when the request is restricted to any set of
  source UUIDs. After a run that was not a dry run and left the subordinate not partially
  skipped, a second run with the same request finds an empty \<open>toSkip\<close>, reports
  "nothing to skip" and changes nothing. When the ranges of the request are sorted and do
  not overlap, so are those of \<open>toSkip\<close>.
\<close>

theorem skip_is_set_difference:
  "fst (snd (skip_one inject_ok request dry_run sub)) = gtid_diff request (executed sub) \<and>
   gtids (gtid_diff request (executed sub)) = gtids request - gtids (executed sub) \<and>
   gtids (executed sub) \<inter> gtids (gtid_diff request (executed sub)) = {} \<and>
   gtids request \<subseteq> gtids (gtid_diff request (executed sub)) \<union> gtids (executed sub) \<and>
   {x \<in> gtids request. fst x \<in> U}
     \<subseteq> gtids (gtid_diff request (executed sub)) \<union> gtids (executed sub) \<and>
   (skip_one inject_ok request False sub = (st, ts, injd, sub') \<and> st \<noteq> PartiallySkipped \<longrightarrow>
      gtid_is_empty (gtid_diff request (executed sub')) \<and>
      skip_one inject_ok' request dry_run' sub' =
        (NothingToSkip, gtid_diff request (executed sub'), [], sub')) \<and>
   (list_all (\<lambda>e. ranges_ok (snd e)) request \<longrightarrow>
      list_all (\<lambda>e. ranges_ok (snd e)) (gtid_diff request (executed sub)))"
proof -
  have second: "gtid_is_empty (gtid_diff request (executed sub')) \<and>
      skip_one inject_ok' request dry_run' sub' =
        (NothingToSkip, gtid_diff request (executed sub'), [], sub')"
    if "skip_one inject_ok request False sub = (st, ts, injd, sub')" and "st \<noteq> PartiallySkipped"
  proof -
    from skip_one_success_covers [OF that]
    have "gtid_is_empty (gtid_diff request (executed sub'))"
      by (auto simp add: gtid_is_empty_iff gtids_gtid_diff)
    then show ?thesis by (simp add: skip_one_def)
  qed
  show ?thesis
    using second gtid_diff_ok [of request "executed sub"]
    by (auto simp add: skip_one_to_skip gtids_gtid_diff)
qed

theorem skip_is_set_difference_witness:
  "gtid_diff [(''u1'', [(10, 12)])] [(''u1'', [(10, 10)])] = [(''u1'', [(11, 12)])] \<and>
   gtids [(''u1'', [(11, 12)])] = gtids [(''u1'', [(10, 12)])] - gtids [(''u1'', [(10, 10)])] \<and>
   skip_one (\<lambda>s u r. True) [(''u1'', [(10, 12)])] False
     \<lparr>sub_name = ''s1'', executed = [(''u1'', [(10, 10)]), (''u1'', [(11, 12)])]\<rparr> =
     (NothingToSkip, [(''u1'', [])], [],
      \<lparr>sub_name = ''s1'', executed = [(''u1'', [(10, 10)]), (''u1'', [(11, 12)])]\<rparr>)"
  using skip_is_set_difference [of "\<lambda>s u r. True" "[(''u1'', [(10, 12)])]" False
              "\<lparr>sub_name = ''s1'', executed = [(''u1'', [(10, 10)])]\<rparr>" UNIV
              Skipped "[(''u1'', [(11, 12)])]" "[(''u1'', (11, 12))]"
              "\<lparr>sub_name = ''s1'', executed = [(''u1'', [(10, 10)]), (''u1'', [(11, 12)])]\<rparr>"
              "\<lambda>s u r. True" False]
  by (simp add: skip_one_def gtid_diff_def ranges_diff_def ranges_minus_def range_minus_def
      ranges_of_def gtid_is_empty_def pending_ranges_def)

text \<open>
  C3. In dry-run mode the skip engine reports, for every subordinate, the \<open>toSkip\<close> it
  computed (pending, or nothing to skip), injects no range, and returns every subordinate
  as it was, the executed set included, for any request. The script hands the value of
  \<open>--dryrun\<close> to the engine unchanged.
\<close>

theorem dry_run_injects_nothing:
  "skip inject_ok request subs True =
     map (\<lambda>sub. (if gtid_is_empty (gtid_diff request (executed sub)) then NothingToSkip
                  else Pending,
                  gtid_diff request (executed sub), [], sub)) subs \<and>
   map (\<lambda>res. snd (snd (snd res))) (skip inject_ok request subs True) = subs \<and>
   list_all (\<lambda>res. fst (snd (snd res)) = []) (skip inject_ok request subs True) \<and>
   list_all (passes_dry_run (opt_dry_run opt)) (fst (mysqlslavetrx w opt))"
  using script_passes_dry_run [of opt w]
  by (auto simp add: skip_def skip_one_def Let_def list_all_iff comp_def map_idI)


theorem dry_run_injects_nothing_witness:
  "skip (\<lambda>s u r. True) [(''u1'', [(10, 12)])]
     [\<lparr>sub_name = ''s1'', executed = [(''u1'', [(10, 10)])]\<rparr>] True =
   [(Pending, [(''u1'', [(11, 12)])], [],
     \<lparr>sub_name = ''s1'', executed = [(''u1'', [(10, 10)])]\<rparr>)] \<and>
   list_all (passes_dry_run True)
     (fst (mysqlslavetrx strict_world
        \<lparr>opt_gtid_set = Some ''u1:10-12'', opt_subordinates = Some ''rpl:pw@host2:3306'',
         opt_dry_run = True, opt_verbosity = None, opt_main = None\<rparr>))"
  using dry_run_injects_nothing
          [where inject_ok = "\<lambda>s u r. True" and request = "[(''u1'', [(10, 12)])]"
             and subs = "[\<lparr>sub_name = ''s1'', executed = [(''u1'', [(10, 10)])]\<rparr>]"
             and w = strict_world
             and opt = "\<lparr>opt_gtid_set = Some ''u1:10-12'',
                          opt_subordinates = Some ''rpl:pw@host2:3306'',
                          opt_dry_run = True, opt_verbosity = None, opt_main = None\<rparr>"]
  by (simp add: gtid_diff_def ranges_diff_def ranges_minus_def range_minus_def ranges_of_def
      gtid_is_empty_def)


section \<open>Verbosity\<close>





end
